theory Spec2Isabelle
  imports Main
begin

section \<open>Go values shared by the packages\<close>

text \<open>
  A Go \<^verbatim>\<open>error\<close> is modelled by its message; \<^verbatim>\<open>nil\<close> is \<open>None\<close> of
  \<open>error option\<close>. A \<^verbatim>\<open>[]byte\<close> and a \<^verbatim>\<open>string\<close> are both byte lists.
  A \<^verbatim>\<open>time.Duration\<close> and an \<^verbatim>\<open>int\<close> are 64-bit integers (\<^verbatim>\<open>main.go\<close> stores
  \<^verbatim>\<open>math.MaxInt64\<close> in an \<^verbatim>\<open>int\<close>), modelled as \<open>int\<close> with the wrap-around
  written out where the code does arithmetic on them. A \<^verbatim>\<open>float64\<close> is a type
  parameter \<open>'f\<close> of which only zero and addition are used.
\<close>

type_synonym error = string
type_synonym bytes = string
type_synonym duration = int

datatype panic =
    NilDereference
  | NilFuncCall
  | NilValueAssertion
  | MakeSliceLen
  | IntnArgument
  | NegativeWaitGroupCounter
  | SendOnClosedChannel
  | CloseOfClosedChannel
  | PanicErr error


text \<open>\<^verbatim>\<open>strings.HasSuffix\<close> and \<^verbatim>\<open>strings.TrimSuffix\<close> of the Go standard library.\<close>

definition HasSuffix :: "string \<Rightarrow> string \<Rightarrow> bool" where
  "HasSuffix s suffix =
     (length suffix \<le> length s \<and> drop (length s - length suffix) s = suffix)"

definition TrimSuffix :: "string \<Rightarrow> string \<Rightarrow> string" where
  "TrimSuffix s suffix =
     (if HasSuffix s suffix then take (length s - length suffix) s else s)"


section \<open>Package target: the request builder\<close>

text \<open>
  \<^verbatim>\<open>http.Header\<close> is a map from header names to the list of their values.
  \<^verbatim>\<open>Header.Add\<close> appends to the list under the canonical form of the key; the
  keys the builder adds (\<^verbatim>\<open>User-Agent\<close>, \<^verbatim>\<open>Authorization\<close>, \<^verbatim>\<open>Content-Type\<close>,
  \<^verbatim>\<open>Content-Encoding\<close>) are their own canonical form.
\<close>

type_synonym header = "string \<rightharpoonup> string list"

definition header_Add :: "header \<Rightarrow> string \<Rightarrow> string \<Rightarrow> header" where
  "header_Add h k v = h(k \<mapsto> (case h k of None \<Rightarrow> [v] | Some vs \<Rightarrow> vs @ [v]))"

record BodyConfig =
  NumErrors :: int
  NumTransactions :: int
  NumSpans :: int
  NumFrames :: int

record 'f Config =
  NumAgents :: int
  Throttle :: 'f
  Pause :: duration
  MaxRequests :: int
  RequestTimeout :: duration
  RunTimeout :: duration
  Endpoint :: string
  SecretToken :: string
  Stream :: bool
  BodyCfg :: BodyConfig
  DisableCompression :: bool
  DisableKeepAlives :: bool
  DisableRedirects :: bool
  Header :: header

text \<open>
  \<^verbatim>\<open>container/ring\<close>: a ring is the list of its values read from the current
  element onwards; a fresh element holds the \<^verbatim>\<open>nil\<close> value \<open>None\<close>; the \<^verbatim>\<open>nil\<close>
  ring (\<^verbatim>\<open>ring.New(0)\<close>) is the empty list. Writing \<^verbatim>\<open>Value\<close> of the \<^verbatim>\<open>nil\<close> ring
  and \<^verbatim>\<open>Next\<close> on it dereference a \<^verbatim>\<open>nil\<close> pointer.
\<close>

type_synonym 'a ring = "'a option list"

definition ring_New :: "int \<Rightarrow> 'a ring" where
  "ring_New n = replicate (nat n) None"

definition ring_set_Value :: "'a ring \<Rightarrow> 'a \<Rightarrow> panic + 'a ring" where
  "ring_set_Value r v = (case r of [] \<Rightarrow> Inl NilDereference | _ # xs \<Rightarrow> Inr (Some v # xs))"

definition ring_Next :: "'a ring \<Rightarrow> panic + 'a ring" where
  "ring_Next r = (case r of [] \<Rightarrow> Inl NilDereference | x # xs \<Rightarrow> Inr (xs @ [x]))"

record 'f Target =
  URLs :: "string ring"
  Method :: string
  Body :: bytes
  Config :: "'f Config"

definition defaultUserAgent :: string where
  "defaultUserAgent = ''hey-apm/1.0''"

definition defaultCfg :: "('f::zero) Config" where
  "defaultCfg = \<lparr>
     NumAgents = 0,
     Throttle = 0,
     Pause = 0,
     MaxRequests = 2 ^ 31 - 1,
     RequestTimeout = 10 * 1000000000,
     RunTimeout = 0,
     Endpoint = ''/intake/v2/events'',
     SecretToken = [],
     Stream = False,
     BodyCfg = \<lparr>NumErrors = 0, NumTransactions = 0, NumSpans = 0, NumFrames = 0\<rparr>,
     DisableCompression = False,
     DisableKeepAlives = False,
     DisableRedirects = False,
     Header = Map.empty\<rparr>"

text \<open>
  \<^verbatim>\<open>compose.Compose\<close> is a payload collaborator outside the builder: it is the
  parameter \<open>compose\<close>.
\<close>

type_synonym composer = "int \<Rightarrow> int \<Rightarrow> int \<Rightarrow> int \<Rightarrow> bytes"

definition buildBody :: "composer \<Rightarrow> BodyConfig \<Rightarrow> bytes" where
  "buildBody compose b = compose (NumErrors b) (NumTransactions b) (NumSpans b) (NumFrames b)"

text \<open>
  An \<^verbatim>\<open>OptionFunc\<close> mutates the \<^verbatim>\<open>Config\<close> it is given and returns an error or
  \<^verbatim>\<open>nil\<close>: a function from the configuration to the updated configuration and
  the error.
\<close>

type_synonym 'f OptionFunc = "'f Config \<Rightarrow> 'f Config \<times> error option"

definition with_opt :: "'f Config \<Rightarrow> 'f OptionFunc \<Rightarrow> error option \<Rightarrow> 'f Config \<times> error option" where
  "with_opt c f err = (case err of Some e \<Rightarrow> (c, Some e) | None \<Rightarrow> f c)"

text \<open>The loop \<^verbatim>\<open>for _, opt := range opts { err = with(cfg, opt, err) }\<close>.\<close>

fun apply_opts :: "'f Config \<Rightarrow> error option \<Rightarrow> 'f OptionFunc list \<Rightarrow> 'f Config \<times> error option" where
  "apply_opts cfg err [] = (cfg, err)"
| "apply_opts cfg err (opt # opts) =
     (case with_opt cfg opt err of (cfg', err') \<Rightarrow> apply_opts cfg' err' opts)"

text \<open>
  The loop \<^verbatim>\<open>for _, url := range urls { ring.Value = ...; ring = ring.Next() }\<close>.
\<close>

fun fill_ring :: "string \<Rightarrow> string list \<Rightarrow> string ring \<Rightarrow> panic + string ring" where
  "fill_ring endpoint [] r = Inr r"
| "fill_ring endpoint (url # urls) r =
     (case ring_set_Value r (TrimSuffix url ''/'' @ endpoint) of
        Inl p \<Rightarrow> Inl p
      | Inr r1 \<Rightarrow>
          (case ring_Next r1 of
             Inl p \<Rightarrow> Inl p
           | Inr r2 \<Rightarrow> fill_ring endpoint urls r2))"

definition NewTargetFromOptions ::
  "composer \<Rightarrow> string list \<Rightarrow> ('f::zero) OptionFunc list \<Rightarrow> panic + ('f Target \<times> error option)" where
  "NewTargetFromOptions compose urls opts =
     (case apply_opts defaultCfg None opts of
        (cfg, err) \<Rightarrow>
          (let body = buildBody compose (BodyCfg cfg) in
           case fill_ring (Endpoint cfg) urls (ring_New (int (length urls))) of
             Inl p \<Rightarrow> Inl p
           | Inr r \<Rightarrow> Inr (\<lparr>URLs = r, Method = ''POST'', Body = body, Config = cfg\<rparr>, err)))"

text \<open>
  Some of the option constructors of the package; they carry the suffix
  \<open>Opt\<close>, as the fields of the configuration have their names.
\<close>

definition SecretTokenOpt :: "string \<Rightarrow> 'f OptionFunc" where
  "SecretTokenOpt s c = (c\<lparr>SecretToken := s\<rparr>, None)"

definition NumErrorsOpt :: "int \<Rightarrow> 'f OptionFunc" where
  "NumErrorsOpt i c = (c\<lparr>BodyCfg := (BodyCfg c)\<lparr>NumErrors := i\<rparr>\<rparr>, None)"

text \<open>
  \<^verbatim>\<open>NumSpans(s)\<close> stores what \<^verbatim>\<open>strconv.Atoi\<close> returns, also when it fails (then
  the value is what \<^verbatim>\<open>Atoi\<close> returns beside the error), and returns its error.
  \<^verbatim>\<open>strconv.Atoi\<close> is the parameter \<open>atoi\<close>.
\<close>

definition NumSpansOpt :: "(string \<Rightarrow> int \<times> error option) \<Rightarrow> string \<Rightarrow> 'f OptionFunc" where
  "NumSpansOpt atoi s c =
     (case atoi s of (n, err) \<Rightarrow> (c\<lparr>BodyCfg := (BodyCfg c)\<lparr>NumSpans := n\<rparr>\<rparr>, err))"


text \<open>
  \<^verbatim>\<open>GetWork\<close> hands the dispatch engine a \<^verbatim>\<open>requester.Work\<close>. Its request is a
  \<^verbatim>\<open>StreamReq\<close> (method, destinations, header, request timeout, run timeout,
  events per second, pause, body) or a \<^verbatim>\<open>SimpleReq\<close> (the \<^verbatim>\<open>http.Request\<close>, body,
  destinations, timeout in seconds, queries per second). The \<^verbatim>\<open>http.Request\<close> is
  kept as its method, URL, header and content length.
\<close>

datatype http_request = HttpRequest string string header int

datatype 'f Req =
    StreamReq string "string ring" header duration duration 'f duration bytes
  | SimpleReq http_request bytes "string ring" int 'f

datatype 'f Work = Work "'f Req" int int bool bool bool

text \<open>
  \<^verbatim>\<open>request\<close>: \<^verbatim>\<open>http.NewRequest\<close> rejects a malformed method or URL, and the
  builder panics with that error; \<open>newRequest\<close> is the parameter that says
  which error, if any, the standard library returns. The request's header
  receives every value of \<open>headers\<close>, key by key.
\<close>

definition request ::
  "(string \<Rightarrow> string \<Rightarrow> error option) \<Rightarrow> string \<Rightarrow> string \<Rightarrow> header \<Rightarrow> bytes \<Rightarrow> panic + http_request" where
  "request newRequest method url headers body =
     (case newRequest method url of
        Some err \<Rightarrow> Inl (PanicErr err)
      | None \<Rightarrow> Inr (HttpRequest method url headers (int (length body))))"

text \<open>
  \<^verbatim>\<open>GetWork\<close> mutates the target (its body and the header of its
  configuration) and returns the descriptor: the model returns the target
  after the call beside the descriptor or the panic. The parameters are the
  standard library's: \<open>gzip\<close> is what a \<^verbatim>\<open>gzip.Writer\<close> over a \<^verbatim>\<open>bytes.Buffer\<close>
  holds once the body is written and the writer closed (neither step fails on
  a buffer, so the two \<^verbatim>\<open>panic(err)\<close> branches are never taken), \<open>seconds\<close> is
  \<^verbatim>\<open>int(d.Seconds())\<close>.
\<close>

definition GetWork ::
  "(bytes \<Rightarrow> bytes) \<Rightarrow> (string \<Rightarrow> string \<Rightarrow> error option) \<Rightarrow> (duration \<Rightarrow> int) \<Rightarrow>
   'f Target \<Rightarrow> 'f Target \<times> (panic + 'f Work)" where
  "GetWork gzip newRequest seconds t =
     (let cfg = Config t;
          h0 = Header cfg;
          h1 = (if h0 ''User-Agent'' = None then header_Add h0 ''User-Agent'' defaultUserAgent else h0);
          h2 = header_Add h1 ''Authorization'' (''Bearer '' @ SecretToken cfg);
          h3 = (if 0 < length (Body t) then header_Add h2 ''Content-Type'' ''application/x-ndjson'' else h2);
          body' = (if \<not> DisableCompression cfg then gzip (Body t) else Body t);
          h4 = (if \<not> DisableCompression cfg then header_Add h3 ''Content-Encoding'' ''gzip'' else h3);
          t' = t\<lparr>Body := body', Config := cfg\<lparr>Header := h4\<rparr>\<rparr>;
          workReq =
            (if Stream cfg then
               Inr (StreamReq (Method t) (URLs t) h4 (RequestTimeout cfg) (RunTimeout cfg)
                      (Throttle cfg) (Pause cfg) body')
             else
               (case URLs t of
                  [] \<Rightarrow> Inl NilDereference
                | None # _ \<Rightarrow> Inl NilValueAssertion
                | Some url # _ \<Rightarrow>
                    (case request newRequest (Method t) url h4 body' of
                       Inl p \<Rightarrow> Inl p
                     | Inr r \<Rightarrow>
                         Inr (SimpleReq r body' (URLs t) (seconds (RequestTimeout cfg)) (Throttle cfg)))))
      in (t',
          case workReq of
            Inl p \<Rightarrow> Inl p
          | Inr r \<Rightarrow>
              Inr (Work r (MaxRequests cfg) (NumAgents cfg) (DisableCompression cfg)
                     (DisableKeepAlives cfg) (DisableRedirects cfg))))"


section \<open>Package work: workloads, generators and the run coordinator\<close>

record Workload =
  EventType :: int
  Limit :: int
  Frequency :: duration
  MaxStructs :: int
  MinStructs :: int


datatype gen_result = Returned "error option" | Blocked | Panicked panic










text \<open>
  The two watchdogs. Each has one \<^verbatim>\<open>select\<close>: \<open>None\<close> is the run in which
  neither of its channels ever delivers.
\<close>

datatype timeout_event = TimeoutDone | TimeExpired

definition timeout :: "timeout_event option \<Rightarrow> gen_result" where
  "timeout ev =
     (case ev of
        None \<Rightarrow> Blocked
      | Some TimeoutDone \<Rightarrow> Returned None
      | Some TimeExpired \<Rightarrow> Returned None)"

text \<open>\<open>Signal s\<close> is the delivery of an interrupt whose \<^verbatim>\<open>String()\<close> is \<open>s\<close>.\<close>

datatype signal_event = SignalDone | Signal string

definition handleSignals :: "signal_event option \<Rightarrow> gen_result" where
  "handleSignals ev =
     (case ev of
        None \<Rightarrow> Blocked
      | Some SignalDone \<Rightarrow> Returned None
      | Some (Signal s) \<Rightarrow> Returned (Some s))"

text \<open>
  What \<^verbatim>\<open>Run\<close> adds to the work group. A generator is recorded with the period
  of the pulse source \<^verbatim>\<open>throttle\<close> created for it and with its limit and
  bounds, in the order of the generator's parameters (limit, minimum, maximum).
  The pulse source itself runs in a goroutine of its own and is not modelled
  further: a generator sees it through the \<open>Pulse\<close> events of its run.
\<close>

datatype participant =
    TransactionsGen duration int int int
  | ErrorsGen duration int int int
  | TimeoutWatch duration
  | SignalWatch

definition Transaction :: int where
  "Transaction = 0"

definition Error :: int where
  "Error = 1"

text \<open>The \<^verbatim>\<open>switch\<close> of \<^verbatim>\<open>Run\<close>: with any other event type \<open>g\<close> stays \<^verbatim>\<open>nil\<close>.\<close>

definition generator_of :: "int \<Rightarrow> (duration \<Rightarrow> int \<Rightarrow> int \<Rightarrow> int \<Rightarrow> participant) option" where
  "generator_of evtType =
     (if evtType = Transaction then Some TransactionsGen
      else if evtType = Error then Some ErrorsGen
      else None)"

fun add_workloads :: "participant list \<Rightarrow> Workload list \<Rightarrow> panic + participant list" where
  "add_workloads w [] = Inr w"
| "add_workloads w (wk # wks) =
     (let g = generator_of (EventType wk) in
      if 0 < Limit wk then
        (case g of
           None \<Rightarrow> Inl NilFuncCall
         | Some gen \<Rightarrow>
             add_workloads (w @ [gen (Frequency wk) (Limit wk) (MinStructs wk) (MaxStructs wk)]) wks)
      else add_workloads w wks)"

text \<open>
  The group that \<^verbatim>\<open>Run\<close> has built when it calls \<^verbatim>\<open>w.Run()\<close>. What \<^verbatim>\<open>Run\<close>
  returns (the report and the error of the group) comes from the run of this
  group by the \<^verbatim>\<open>workgroup\<close> library and from the tracer.
\<close>

definition Run_group :: "duration \<Rightarrow> Workload list \<Rightarrow> panic + participant list" where
  "Run_group runTimeout workload =
     (case add_workloads [] workload of
        Inl p \<Rightarrow> Inl p
      | Inr w \<Rightarrow> Inr ((if 0 < runTimeout then w @ [TimeoutWatch runTimeout] else w) @ [SignalWatch]))"


section \<open>Package main: the workload file\<close>

text \<open>
  \<^verbatim>\<open>util.Atod\<close>; \<^verbatim>\<open>time.ParseDuration\<close> is the parameter \<open>parseDuration\<close>.
\<close>

definition Atod :: "(string \<Rightarrow> duration \<times> error option) \<Rightarrow> string \<Rightarrow> error option \<Rightarrow> duration \<times> error option" where
  "Atod parseDuration attr err =
     (case err of Some e \<Rightarrow> (0, Some e) | None \<Rightarrow> parseDuration attr)"

text \<open>
  What \<^verbatim>\<open>parseFile\<close> reads: \<^verbatim>\<open>os.Open\<close> fails, or the file opens and
  \<^verbatim>\<open>csv.ReadAll\<close> returns the records and its error.
\<close>

datatype workload_file = OpenFails error | Opened "string list list" "error option"

text \<open>
  The loop over the lines. \<^verbatim>\<open>util.Aton\<close> and \<^verbatim>\<open>util.Get\<close> are not among the
  sources: they are the parameters \<open>aton\<close> and \<open>get\<close>. The first statement of
  the body, \<^verbatim>\<open>evtType, err := util.Aton(util.Get(0, line), err)\<close>, declares a new
  \<^verbatim>\<open>err\<close> in the block of the body and reads the one of the function on its
  right-hand side; the four statements after it and the test before \<^verbatim>\<open>break\<close>
  use the new one. So \<open>err\<close>, the variable of the function, is read by every
  round and written by none.
\<close>

fun parse_lines ::
  "(string \<Rightarrow> error option \<Rightarrow> int \<times> error option) \<Rightarrow>
   (string \<Rightarrow> error option \<Rightarrow> duration \<times> error option) \<Rightarrow>
   (int \<Rightarrow> string list \<Rightarrow> string) \<Rightarrow>
   error option \<Rightarrow> Workload list \<Rightarrow> string list list \<Rightarrow> Workload list" where
  "parse_lines aton atod get err ret [] = ret"
| "parse_lines aton atod get err ret (line # lines) =
     (case aton (get 0 line) err of (evtType, err1) \<Rightarrow>
      case aton (get 1 line) err1 of (limit, err2) \<Rightarrow>
      case atod (get 2 line) err2 of (freq, err3) \<Rightarrow>
      case aton (get 3 line) err3 of (maxStructs, err4) \<Rightarrow>
      case aton (get 4 line) err4 of (minStructs, err5) \<Rightarrow>
        if err5 \<noteq> None then ret
        else parse_lines aton atod get err
               (ret @ [\<lparr>EventType = evtType, Limit = limit, Frequency = freq,
                        MaxStructs = maxStructs, MinStructs = minStructs\<rparr>]) lines)"

definition parseFile ::
  "(string \<Rightarrow> error option \<Rightarrow> int \<times> error option) \<Rightarrow>
   (string \<Rightarrow> error option \<Rightarrow> duration \<times> error option) \<Rightarrow>
   (int \<Rightarrow> string list \<Rightarrow> string) \<Rightarrow>
   workload_file \<Rightarrow> Workload list \<times> error option" where
  "parseFile aton atod get f =
     (case f of
        OpenFails e \<Rightarrow> ([], Some e)
      | Opened lines err \<Rightarrow> (parse_lines aton atod get err [] lines, err))"

text \<open>
  Modelled from the spec: \<^verbatim>\<open>util.Aton\<close>, which is missing from the sources. The
  spec calls it a number parsing helper that validates a field of a row; it is
  given the shape of its sibling \<^verbatim>\<open>util.Atod\<close>, over \<^verbatim>\<open>strconv.Atoi\<close> (the
  parameter \<open>atoi\<close>). It is used to run \<open>parseFile\<close> on a concrete file only.
\<close>

definition Aton :: "(string \<Rightarrow> int \<times> error option) \<Rightarrow> string \<Rightarrow> error option \<Rightarrow> int \<times> error option" where
  "Aton atoi attr err =
     (case err of Some e \<Rightarrow> (0, Some e) | None \<Rightarrow> atoi attr)"

text \<open>
  Modelled from the spec: \<^verbatim>\<open>util.Get\<close>, which is missing from the sources: the
  field of a row at an index, or the empty string where the row has no such
  field. It is used to run \<open>parseFile\<close> on a concrete file only.
\<close>

definition Get :: "int \<Rightarrow> string list \<Rightarrow> string" where
  "Get i xs = (if 0 \<le> i \<and> i < int (length xs) then xs ! nat i else [])"


section \<open>Package agent: the tracer and its transport\<close>

text \<open>
  The document \<^verbatim>\<open>json.Unmarshal\<close> decodes into a \<^verbatim>\<open>map[string]interface{}\<close>: a
  JSON value is \<^verbatim>\<open>nil\<close>, a boolean, a \<^verbatim>\<open>float64\<close>, a string, a slice or a map.
  The decoder itself is a parameter \<open>unmarshal\<close> of what follows: \<open>None\<close> is
  its error.
\<close>

datatype 'f json =
    JNull
  | JBool bool
  | JNumber 'f
  | JString string
  | JArray "'f json list"
  | JObject "(string \<times> 'f json) list"

type_synonym 'f document = "(string \<times> 'f json) list"

type_synonym 'f unmarshal = "bytes \<Rightarrow> 'f document option"

text \<open>
  Modelled from the spec: \<^verbatim>\<open>conv.AsFloat64\<close>, which is missing from the sources.
  The spec describes the accessors of the response document as safe field
  lookups with a default; this one is "numeric or zero".
\<close>

definition AsFloat64 :: "('f::zero) document \<Rightarrow> string \<Rightarrow> 'f" where
  "AsFloat64 m k = (case map_of m k of Some (JNumber x) \<Rightarrow> x | _ \<Rightarrow> 0)"

text \<open>
  Modelled from the spec: \<^verbatim>\<open>conv.AsSlice\<close>, which is missing from the sources;
  the spec's "list or empty".
\<close>

definition AsSlice :: "'f document \<Rightarrow> string \<Rightarrow> 'f json list" where
  "AsSlice m k = (case map_of m k of Some (JArray xs) \<Rightarrow> xs | _ \<Rightarrow> [])"

text \<open>
  Modelled from the spec: \<^verbatim>\<open>conv.AsString\<close>, which is missing from the sources;
  the spec's "string or empty", applied to an entry of the error list.
\<close>

definition AsString :: "'f json \<Rightarrow> string \<Rightarrow> string" where
  "AsString i k =
     (case i of
        JObject m \<Rightarrow> (case map_of m k of Some (JString s) \<Rightarrow> s | _ \<Rightarrow> [])
      | _ \<Rightarrow> [])"

text \<open>
  Modelled from the spec: \<^verbatim>\<open>strcoll.Contains\<close>, which is missing from the
  sources; the spec has a message inserted "if not already present".
\<close>

definition Contains :: "string \<Rightarrow> string list \<Rightarrow> bool" where
  "Contains e xs = (e \<in> set xs)"

record 'f transportStats =
  Accepted :: 'f
  TopErrors :: "string list"

text \<open>The loop \<^verbatim>\<open>for _, i := range conv.AsSlice(m, "errors")\<close> of the aggregation task.\<close>

fun add_errors :: "string list \<Rightarrow> 'f json list \<Rightarrow> string list" where
  "add_errors errs [] = errs"
| "add_errors errs (i # rest) =
     (let e = AsString i ''message'' in
      if \<not> Contains e errs then add_errors (errs @ [e]) rest else add_errors errs rest)"

text \<open>
  One round of the aggregation task on the response it received. \<open>None\<close>: the
  body does not parse and the task executes \<^verbatim>\<open>return\<close>. \<open>Some st\<close>: the
  statistics after the round, which then ends with \<^verbatim>\<open>rt.wg.Done()\<close>.
\<close>

definition aggregate ::
  "('f::{zero,plus}) unmarshal \<Rightarrow> 'f transportStats \<Rightarrow> bytes \<Rightarrow> 'f transportStats option" where
  "aggregate unmarshal st response =
     (case unmarshal response of
        None \<Rightarrow> None
      | Some m \<Rightarrow>
          Some (st\<lparr>Accepted := Accepted st + AsFloat64 m ''accepted'',
                  TopErrors := add_errors (TopErrors st) (AsSlice m ''errors'')\<rparr>))"

text \<open>
  The aggregation task alone, as a function of the bodies that the channel
  delivers to it, in order: the statistics it leaves, the number of
  \<^verbatim>\<open>wg.Done()\<close> calls it made, whether it returned (otherwise it is waiting
  to receive), and the bodies it never received.
\<close>

record 'f task_end =
  final_stats :: "'f transportStats"
  done_calls :: nat
  returned :: bool
  unreceived :: "bytes list"

fun aggregation_task ::
  "('f::{zero,plus}) unmarshal \<Rightarrow> 'f transportStats \<Rightarrow> nat \<Rightarrow> bytes list \<Rightarrow> 'f task_end" where
  "aggregation_task unmarshal st n [] =
     \<lparr>final_stats = st, done_calls = n, returned = False, unreceived = []\<rparr>"
| "aggregation_task unmarshal st n (response # rest) =
     (case aggregate unmarshal st response of
        None \<Rightarrow> \<lparr>final_stats = st, done_calls = n, returned = True, unreceived = rest\<rparr>
      | Some st' \<Rightarrow> aggregation_task unmarshal st' (Suc n) rest)"

text \<open>
  \<^verbatim>\<open>RoundTrip\<close>. The default transport's answer is \<open>TransportError\<close> or a
  response with its body: \<^verbatim>\<open>http.NoBody\<close>, or a stream from which \<^verbatim>\<open>ReadAll\<close>
  returns bytes and an error or \<^verbatim>\<open>nil\<close>. The call is described by whether it
  set the \<^verbatim>\<open>verbose\<close> query parameter, by the operations it performs on the
  channel, on the wait group and on the standard output, in program order,
  by the bytes that the body of the returned response replays when the call
  replaced it, and by the error it returns.
\<close>

datatype rt_body = NoBody | BodyStream bytes "error option"

datatype transport_result = TransportError error | Response rt_body

datatype rt_op = ChanSend bytes | WgAdd int | Println error

definition intake_path :: "string \<Rightarrow> bool" where
  "intake_path p = (p = ''/intake/v2/events'' \<or> p = ''/intake/v2/rum/events'')"

record round_trip =
  verbose_set :: bool
  ops :: "rt_op list"
  body_replayed :: "bytes option"
  err_returned :: "error option"

definition RoundTrip :: "string \<Rightarrow> transport_result \<Rightarrow> round_trip" where
  "RoundTrip path res =
     (if \<not> intake_path path then
        (case res of
           TransportError e \<Rightarrow>
             \<lparr>verbose_set = False, ops = [], body_replayed = None, err_returned = Some e\<rparr>
         | Response _ \<Rightarrow>
             \<lparr>verbose_set = False, ops = [], body_replayed = None, err_returned = None\<rparr>)
      else
        (case res of
           TransportError e \<Rightarrow>
             \<lparr>verbose_set = True, ops = [], body_replayed = None, err_returned = Some e\<rparr>
         | Response NoBody \<Rightarrow>
             \<lparr>verbose_set = True, ops = [], body_replayed = None, err_returned = None\<rparr>
         | Response (BodyStream b rerr) \<Rightarrow>
             (case rerr of
                None \<Rightarrow>
                  \<lparr>verbose_set = True, ops = [ChanSend b, WgAdd 1],
                   body_replayed = Some b, err_returned = None\<rparr>
              | Some e \<Rightarrow>
                  \<lparr>verbose_set = True, ops = [Println e],
                   body_replayed = None, err_returned = None\<rparr>)))"

text \<open>
  The tasks together. \<open>senders\<close> holds, for every \<^verbatim>\<open>RoundTrip\<close> call in flight,
  the operations it has still to perform; \<open>aggregator\<close> is where the
  aggregation task stands; \<open>closer\<close> is where \<^verbatim>\<open>Tracer.Close\<close> stands
  (\<^verbatim>\<open>t.Tracer.Close()\<close>, then \<^verbatim>\<open>rt.wg.Wait()\<close>, then \<^verbatim>\<open>close(rt.c)\<close>); \<open>counter\<close> is
  the wait group's counter; \<open>crashed\<close> is the panic that ended the process.
\<close>

datatype agg_state = Receiving | Holding bytes | AggReturned

datatype close_state = NotCalled | Waiting | Closing | CloseReturned

record 'f system =
  senders :: "rt_op list list"
  aggregator :: agg_state
  closer :: close_state
  chan_closed :: bool
  counter :: int
  stats :: "'f transportStats"
  crashed :: "panic option"

text \<open>
  \<^verbatim>\<open>sync.WaitGroup.Add\<close> (\<^verbatim>\<open>Done\<close> is \<^verbatim>\<open>Add(-1)\<close>) panics when the counter becomes
  negative.
\<close>

definition wg_Add :: "int \<Rightarrow> 'f system \<Rightarrow> 'f system" where
  "wg_Add d s =
     (if counter s + d < 0 then s\<lparr>counter := counter s + d, crashed := Some NegativeWaitGroupCounter\<rparr>
      else s\<lparr>counter := counter s + d\<rparr>)"

text \<open>
  One step of one task. The channel is unbuffered (\<^verbatim>\<open>make(chan []byte, 0)\<close>): a
  send completes together with the receive of the aggregation task. A send
  on a closed channel panics; a receive from a closed channel delivers the
  \<^verbatim>\<open>nil\<close> slice. \<^verbatim>\<open>Wait\<close> returns when the counter is zero.
\<close>

inductive step :: "('f::{zero,plus}) unmarshal \<Rightarrow> 'f system \<Rightarrow> 'f system \<Rightarrow> bool"
  for unmarshal :: "'f unmarshal" where
  send:
    "\<lbrakk>crashed s = None; i < length (senders s); senders s ! i = ChanSend b # rest;
      \<not> chan_closed s; aggregator s = Receiving\<rbrakk>
     \<Longrightarrow> step unmarshal s (s\<lparr>senders := (senders s)[i := rest], aggregator := Holding b\<rparr>)"
| send_closed:
    "\<lbrakk>crashed s = None; i < length (senders s); senders s ! i = ChanSend b # rest;
      chan_closed s\<rbrakk>
     \<Longrightarrow> step unmarshal s (s\<lparr>crashed := Some SendOnClosedChannel\<rparr>)"
| add:
    "\<lbrakk>crashed s = None; i < length (senders s); senders s ! i = WgAdd d # rest\<rbrakk>
     \<Longrightarrow> step unmarshal s (wg_Add d (s\<lparr>senders := (senders s)[i := rest]\<rparr>))"
| println:
    "\<lbrakk>crashed s = None; i < length (senders s); senders s ! i = Println e # rest\<rbrakk>
     \<Longrightarrow> step unmarshal s (s\<lparr>senders := (senders s)[i := rest]\<rparr>)"
| receive_closed:
    "\<lbrakk>crashed s = None; chan_closed s; aggregator s = Receiving\<rbrakk>
     \<Longrightarrow> step unmarshal s (s\<lparr>aggregator := Holding []\<rparr>)"
| aggregate_return:
    "\<lbrakk>crashed s = None; aggregator s = Holding b; aggregate unmarshal (stats s) b = None\<rbrakk>
     \<Longrightarrow> step unmarshal s (s\<lparr>aggregator := AggReturned\<rparr>)"
| aggregate_done:
    "\<lbrakk>crashed s = None; aggregator s = Holding b; aggregate unmarshal (stats s) b = Some st\<rbrakk>
     \<Longrightarrow> step unmarshal s (wg_Add (- 1) (s\<lparr>stats := st, aggregator := Receiving\<rparr>))"
| close_called:
    "\<lbrakk>crashed s = None; closer s = NotCalled\<rbrakk>
     \<Longrightarrow> step unmarshal s (s\<lparr>closer := Waiting\<rparr>)"
| wait_returns:
    "\<lbrakk>crashed s = None; closer s = Waiting; counter s = 0\<rbrakk>
     \<Longrightarrow> step unmarshal s (s\<lparr>closer := Closing\<rparr>)"
| close_channel:
    "\<lbrakk>crashed s = None; closer s = Closing; \<not> chan_closed s\<rbrakk>
     \<Longrightarrow> step unmarshal s (s\<lparr>chan_closed := True, closer := CloseReturned\<rparr>)"
| close_closed_channel:
    "\<lbrakk>crashed s = None; closer s = Closing; chan_closed s\<rbrakk>
     \<Longrightarrow> step unmarshal s (s\<lparr>crashed := Some CloseOfClosedChannel\<rparr>)"

inductive reach :: "('f::{zero,plus}) unmarshal \<Rightarrow> 'f system \<Rightarrow> 'f system \<Rightarrow> bool"
  for unmarshal :: "'f unmarshal" and s0 :: "'f system" where
  reach_init: "reach unmarshal s0 s0"
| reach_step: "\<lbrakk>reach unmarshal s0 s; step unmarshal s s'\<rbrakk> \<Longrightarrow> reach unmarshal s0 s'"

text \<open>
  The state \<^verbatim>\<open>NewTracer\<close> leaves, with the \<^verbatim>\<open>RoundTrip\<close> calls \<open>calls\<close> in flight:
  zero statistics, an open channel, a zero counter, the aggregation task
  waiting to receive, \<^verbatim>\<open>Close\<close> not called.
\<close>

definition start :: "rt_op list list \<Rightarrow> ('f::zero) system" where
  "start calls =
     \<lparr>senders = calls, aggregator = Receiving, closer = NotCalled, chan_closed = False,
      counter = 0, stats = \<lparr>Accepted = 0, TopErrors = []\<rparr>, crashed = None\<rparr>"


section \<open>Properties of the request builder\<close>

lemma TrimSuffix_slash_present: "TrimSuffix (u @ ''/'') ''/'' = u"
  by (simp add: TrimSuffix_def HasSuffix_def)

lemma TrimSuffix_slash_absent:
  assumes "u = [] \<or> last u \<noteq> CHR ''/''"
  shows "TrimSuffix u ''/'' = u"
proof (cases u rule: rev_cases)
  case Nil
  then show ?thesis by (simp add: TrimSuffix_def HasSuffix_def)
next
  case (snoc ys y)
  with assms have "y \<noteq> CHR ''/''" by simp
  with snoc show ?thesis by (simp add: TrimSuffix_def HasSuffix_def)
qed

lemma fill_ring_fresh:
  "fill_ring ep urls (replicate (length urls) None @ filled) =
     Inr (filled @ map (\<lambda>u. Some (TrimSuffix u ''/'' @ ep)) urls)"
proof (induction urls arbitrary: filled)
  case Nil
  show ?case by simp
next
  case (Cons u us)
  have "fill_ring ep (u # us) (replicate (length (u # us)) None @ filled) =
        fill_ring ep us (replicate (length us) None @ (filled @ [Some (TrimSuffix u ''/'' @ ep)]))"
    by (simp add: ring_set_Value_def ring_Next_def)
  also have "\<dots> = Inr ((filled @ [Some (TrimSuffix u ''/'' @ ep)]) @
                       map (\<lambda>u. Some (TrimSuffix u ''/'' @ ep)) us)"
    by (rule Cons.IH)
  finally show ?case by simp
qed

lemma fill_ring_New:
  "fill_ring ep urls (ring_New (int (length urls))) =
     Inr (map (\<lambda>u. Some (TrimSuffix u ''/'' @ ep)) urls)"
  using fill_ring_fresh [of ep urls "[]"] by (simp add: ring_New_def)

lemma NewTargetFromOptions_result:
  "NewTargetFromOptions compose urls opts =
     Inr (\<lparr>URLs = map (\<lambda>u. Some (TrimSuffix u ''/'' @ Endpoint (fst (apply_opts defaultCfg None opts)))) urls,
           Method = ''POST'',
           Body = buildBody compose (BodyCfg (fst (apply_opts defaultCfg None opts))),
           Config = fst (apply_opts defaultCfg None opts)\<rparr>,
          snd (apply_opts defaultCfg None opts))"
  by (simp add: NewTargetFromOptions_def fill_ring_New split: prod.splits)

lemma apply_opts_after_error: "apply_opts cfg (Some e) opts = (cfg, Some e)"
  by (induction opts) (simp_all add: with_opt_def)

lemma apply_opts_append:
  "apply_opts cfg err (xs @ ys) =
     (case apply_opts cfg err xs of (cfg', err') \<Rightarrow> apply_opts cfg' err' ys)"
  by (induction xs arbitrary: cfg err) (simp_all split: prod.splits)

text \<open>
  Claim C8. The rotation that \<open>NewTargetFromOptions\<close> builds holds, for each
  destination in the order given, the destination without one trailing
  \<^verbatim>\<open>/\<close> (removed if present, otherwise the destination as it is) followed by
  the endpoint path of the configuration; the list \<^verbatim>\<open>http://a/\<close>, \<^verbatim>\<open>http://b\<close> with
  the default endpoint gives \<^verbatim>\<open>http://a/intake/v2/events\<close>,
  \<^verbatim>\<open>http://b/intake/v2/events\<close>.
\<close>

theorem C8_destinations_normalized:
  "(\<exists>t err. NewTargetFromOptions compose urls opts = Inr (t, err) \<and>
       URLs t = map (\<lambda>u. Some (TrimSuffix u ''/'' @ Endpoint (Config t))) urls)
   \<and> TrimSuffix (u @ ''/'') ''/'' = u
   \<and> (\<not> HasSuffix v ''/'' \<longrightarrow> TrimSuffix v ''/'' = v)
   \<and> (\<exists>t err. NewTargetFromOptions compose [''http://a/'', ''http://b''] [] = Inr (t, err) \<and>
       URLs t = [Some ''http://a/intake/v2/events'', Some ''http://b/intake/v2/events''])"
proof (intro conjI)
  show "\<exists>t err. NewTargetFromOptions compose urls opts = Inr (t, err) \<and>
       URLs t = map (\<lambda>u. Some (TrimSuffix u ''/'' @ Endpoint (Config t))) urls"
    by (simp add: NewTargetFromOptions_result)
  show "TrimSuffix (u @ ''/'') ''/'' = u"
    by (rule TrimSuffix_slash_present)
  show "\<not> HasSuffix v ''/'' \<longrightarrow> TrimSuffix v ''/'' = v"
    by (simp add: TrimSuffix_def)
  show "\<exists>t err. NewTargetFromOptions compose [''http://a/'', ''http://b''] [] = Inr (t, err) \<and>
       URLs t = [Some ''http://a/intake/v2/events'', Some ''http://b/intake/v2/events'']"
    by (simp add: NewTargetFromOptions_result TrimSuffix_def HasSuffix_def defaultCfg_def)
qed

theorem C8_destinations_normalized_witness:
  "\<not> HasSuffix ''http://b'' ''/'' \<and> TrimSuffix ''http://b'' ''/'' = ''http://b''
   \<and> TrimSuffix ''http://a//'' ''/'' = ''http://a/''
   \<and> (\<exists>t err. NewTargetFromOptions (\<lambda>e t s f. ''{}'') [''http://a//'', ''http://b'']
                 [SecretTokenOpt ''s''] = Inr (t :: int Target, err) \<and>
        URLs t = map (\<lambda>u. Some (TrimSuffix u ''/'' @ Endpoint (Config t))) [''http://a//'', ''http://b''])"
proof -
  have h: "\<not> HasSuffix ''http://b'' ''/''"
    by (simp add: HasSuffix_def)
  from C8_destinations_normalized [of "\<lambda>e t s f. ''{}''" "[''http://a//'', ''http://b'']"
      "[SecretTokenOpt ''s''] :: int OptionFunc list" "''http://a/''" "''http://b''"] h
  show ?thesis
    by auto
qed

text \<open>
  Claim C10. Once an option has returned an error, no later option is applied
  to the configuration: whatever options follow, the configuration is the one
  the failing option left, and \<open>NewTargetFromOptions\<close> returns a target built
  from it together with that first error.
\<close>

theorem C10_options_stop_at_first_error:
  assumes "apply_opts defaultCfg None pre = (c1, None)"
    and "f c1 = (c2, Some e)"
  shows "apply_opts defaultCfg None (pre @ f # post) = (c2, Some e) \<and>
         NewTargetFromOptions compose urls (pre @ f # post) =
           Inr (\<lparr>URLs = map (\<lambda>u. Some (TrimSuffix u ''/'' @ Endpoint c2)) urls,
                 Method = ''POST'',
                 Body = buildBody compose (BodyCfg c2),
                 Config = c2\<rparr>, Some e)"
proof -
  have "apply_opts defaultCfg None (pre @ f # post) = apply_opts c1 None (f # post)"
    using assms(1) by (simp add: apply_opts_append)
  also have "\<dots> = apply_opts c2 (Some e) post"
    using assms(2) by (simp add: with_opt_def)
  also have "\<dots> = (c2, Some e)"
    by (rule apply_opts_after_error)
  finally have *: "apply_opts defaultCfg None (pre @ f # post) = (c2, Some e)" .
  then show ?thesis
    by (simp add: NewTargetFromOptions_result)
qed

theorem C10_options_stop_at_first_error_witness:
  "apply_opts defaultCfg None [SecretTokenOpt ''tok''] =
     ((defaultCfg :: int Config)\<lparr>SecretToken := ''tok''\<rparr>, None)
   \<and> NumSpansOpt (\<lambda>s. (0, Some ''invalid syntax'')) ''x'' ((defaultCfg :: int Config)\<lparr>SecretToken := ''tok''\<rparr>) =
     ((defaultCfg :: int Config)\<lparr>SecretToken := ''tok''\<rparr>, Some ''invalid syntax'')
   \<and> NewTargetFromOptions (\<lambda>e t s f. ''{}'') [''http://b'']
        [SecretTokenOpt ''tok'', NumSpansOpt (\<lambda>s. (0, Some ''invalid syntax'')) ''x'', NumErrorsOpt 7] =
       Inr (\<lparr>URLs = [Some ''http://b/intake/v2/events''],
             Method = ''POST'',
             Body = ''{}'',
             Config = (defaultCfg :: int Config)\<lparr>SecretToken := ''tok''\<rparr>\<rparr>, Some ''invalid syntax'')"
proof -
  let ?c = "(defaultCfg :: int Config)\<lparr>SecretToken := ''tok''\<rparr>"
  have h1: "apply_opts defaultCfg None [SecretTokenOpt ''tok''] = (?c, None)"
    by (simp add: with_opt_def SecretTokenOpt_def)
  have h2: "NumSpansOpt (\<lambda>s. (0, Some ''invalid syntax'')) ''x'' ?c = (?c, Some ''invalid syntax'')"
    by (simp add: NumSpansOpt_def defaultCfg_def)
  have e: "Endpoint ?c = ''/intake/v2/events''" "NumErrors (BodyCfg ?c) = 0"
    by (simp_all add: defaultCfg_def)
  have t: "TrimSuffix ''http://b'' ''/'' = ''http://b''"
    by (simp add: TrimSuffix_def HasSuffix_def)
  from C10_options_stop_at_first_error [where pre = "[SecretTokenOpt ''tok'']" and ?c1.0 = ?c
      and f = "NumSpansOpt (\<lambda>s. (0, Some ''invalid syntax'')) ''x''" and ?c2.0 = ?c
      and e = "''invalid syntax''" and post = "[NumErrorsOpt 7]"
      and compose = "\<lambda>e t s f. ''{}''" and urls = "[''http://b'']", OF h1 h2]
  show ?thesis
    using h1 h2 by (simp add: e t buildBody_def)
qed

section \<open>Properties of the descriptor\<close>

text \<open>
  Claim C7. With compression enabled, one call of \<open>GetWork\<close> leaves as body of
  the target the gzip encoding of the body before the call, and has recorded
  exactly one more \<^verbatim>\<open>Content-Encoding: gzip\<close> value than the header held
  before: the body is compressed once per descriptor built.
\<close>

theorem C7_compression_once_per_descriptor:
  assumes "\<not> DisableCompression (Config t)"
  shows "Body (fst (GetWork gzip newRequest seconds t)) = gzip (Body t) \<and>
         Header (Config (fst (GetWork gzip newRequest seconds t))) ''Content-Encoding'' =
           Some ((case Header (Config t) ''Content-Encoding'' of None \<Rightarrow> [] | Some vs \<Rightarrow> vs) @ [''gzip''])"
  using assms
  by (simp add: GetWork_def Let_def header_Add_def split: option.splits)

theorem C7_compression_once_per_descriptor_witness:
  "\<not> DisableCompression (defaultCfg :: int Config)
   \<and> Body (fst (GetWork (\<lambda>b. ''GZ'' @ b) (\<lambda>m u. None) (\<lambda>d. 10)
        \<lparr>URLs = [Some ''http://b/intake/v2/events''], Method = ''POST'', Body = ''{}'',
         Config = (defaultCfg :: int Config)\<rparr>)) = ''GZ{}''
   \<and> Header (Config (fst (GetWork (\<lambda>b. ''GZ'' @ b) (\<lambda>m u. None) (\<lambda>d. 10)
        \<lparr>URLs = [Some ''http://b/intake/v2/events''], Method = ''POST'', Body = ''{}'',
         Config = (defaultCfg :: int Config)\<rparr>))) ''Content-Encoding'' = Some [''gzip'']"
proof -
  let ?t = "\<lparr>URLs = [Some ''http://b/intake/v2/events''], Method = ''POST'', Body = ''{}'',
             Config = (defaultCfg :: int Config)\<rparr>"
  have h: "\<not> DisableCompression (Config ?t)"
    by (simp add: defaultCfg_def)
  have e: "Header (Config ?t) ''Content-Encoding'' = None"
    by (simp add: defaultCfg_def)
  from C7_compression_once_per_descriptor [OF h, of "\<lambda>b. ''GZ'' @ b" "\<lambda>m u. None" "\<lambda>d. 10"] h e
  show ?thesis by simp
qed


section \<open>Properties of the run coordinator\<close>

lemma add_workloads_append:
  "add_workloads w (xs @ ys) =
     (case add_workloads w xs of Inl p \<Rightarrow> Inl p | Inr w' \<Rightarrow> add_workloads w' ys)"
  by (induction xs arbitrary: w) (simp_all add: Let_def split: option.splits)

text \<open>
  Claim C4. A workload whose limit is zero adds no participant to the work
  group: no generator is started for it and no pulse source is created for
  it, and the group that \<open>Run\<close> runs is the group of the workload list without
  it.
\<close>

theorem C4_zero_limit_workload_skipped:
  assumes "Limit wk = 0"
  shows "add_workloads w (wk # wks) = add_workloads w wks \<and>
         Run_group runTimeout (pre @ wk # post) = Run_group runTimeout (pre @ post)"
proof -
  have skip: "add_workloads v (wk # rest) = add_workloads v rest" for v rest
    using assms by (simp add: Let_def)
  have "add_workloads [] (pre @ wk # post) = add_workloads [] (pre @ post)"
    by (simp add: add_workloads_append skip del: add_workloads.simps cong: sum.case_cong)
  then show ?thesis
    using skip by (simp add: Run_group_def del: add_workloads.simps)
qed

theorem C4_zero_limit_workload_skipped_witness:
  "Limit \<lparr>EventType = 1, Limit = 0, Frequency = 1, MaxStructs = 10, MinStructs = 1\<rparr> = 0
   \<and> Run_group 0
       [\<lparr>EventType = 0, Limit = 2, Frequency = 1, MaxStructs = 10, MinStructs = 1\<rparr>,
        \<lparr>EventType = 1, Limit = 0, Frequency = 1, MaxStructs = 10, MinStructs = 1\<rparr>] =
     Inr [TransactionsGen 1 2 1 10, SignalWatch]"
proof -
  let ?tx = "\<lparr>EventType = 0, Limit = 2, Frequency = 1, MaxStructs = 10, MinStructs = 1\<rparr>"
  let ?er = "\<lparr>EventType = 1, Limit = 0, Frequency = 1, MaxStructs = 10, MinStructs = 1\<rparr>"
  have h: "Limit ?er = 0" by simp
  have "Run_group 0 [?tx] = Inr [TransactionsGen 1 2 1 10, SignalWatch]"
    by (simp add: Run_group_def generator_of_def Transaction_def)
  with C4_zero_limit_workload_skipped [OF h, of "[]" "[]" 0 "[?tx]" "[]"] h
  show ?thesis by simp
qed

text \<open>
  Claim C6, as stated, fails: when the \<^verbatim>\<open>done\<close> channel is what the \<^verbatim>\<open>select\<close> of
  the interrupt watchdog receives, the watchdog returns \<^verbatim>\<open>nil\<close>.
\<close>

theorem C6_counterexample:
  "handleSignals (Some SignalDone) = Returned None"
  by (simp add: handleSignals_def)

text \<open>
  Claim C6, amended. The interrupt watchdog turns an interrupt into a
  non-\<^verbatim>\<open>nil\<close> error carrying the signal's name, and it returns \<^verbatim>\<open>nil\<close> in one
  case only: the cancellation of the group reached it first.
\<close>

theorem C6_interrupt_becomes_error:
  "handleSignals (Some (Signal s)) = Returned (Some s) \<and>
   (handleSignals ev = Returned None) = (ev = Some SignalDone)"
  by (simp add: handleSignals_def split: option.splits signal_event.splits)


section \<open>Properties of the error generator\<close>
















section \<open>Properties of the workload file\<close>

text \<open>
  What \<open>parseFile\<close> does keep: the rows validated before the loop stops are
  returned, after what was there before; and the error it returns beside them
  is the one \<^verbatim>\<open>csv.ReadAll\<close> returned, whatever the rows are.
\<close>

lemma parse_lines_keeps_validated:
  "\<exists>more. parse_lines aton atod get err ret lines = ret @ more"
proof (induction lines arbitrary: ret)
  case Nil
  show ?case by simp
next
  case (Cons line lines)
  have "\<exists>more. parse_lines aton atod get err (ret @ [w]) lines = ret @ more" for w
    using Cons.IH [of "ret @ [w]"] by auto
  then show ?case
    by (simp add: case_prod_beta)
qed

lemma parseFile_returns_read_error:
  "snd (parseFile aton atod get (Opened lines err)) = err"
  by (simp add: parseFile_def)

text \<open>
  Claim C9. The claim asks for the error of the first malformed row to be
  returned beside the rows validated before it. On a file of three rows whose
  second row has a malformed first field, \<open>parseFile\<close> keeps the first row and
  drops the second and the third, but the error it returns is \<^verbatim>\<open>nil\<close>: the row's
  error lives in the \<^verbatim>\<open>err\<close> declared inside the loop body, and the function
  returns its own \<^verbatim>\<open>err\<close>, which the loop never writes.
\<close>

theorem C9_row_error_not_returned:
  "parseFile
     (Aton (\<lambda>s. if s = ''1'' then (1, None) else if s = ''5'' then (5, None) else (0, Some ''invalid syntax'')))
     (Atod (\<lambda>s. if s = ''1s'' then (1000000000, None) else (0, Some ''invalid duration'')))
     Get
     (Opened [[''1'', ''5'', ''1s'', ''5'', ''1''], [''x'', ''5'', ''1s'', ''5'', ''1''],
              [''1'', ''5'', ''1s'', ''5'', ''1'']] None)
   = ([\<lparr>EventType = 1, Limit = 5, Frequency = 1000000000, MaxStructs = 5, MinStructs = 1\<rparr>], None)"
  by (simp add: parseFile_def Aton_def Atod_def Get_def)


section \<open>Properties of the transport and of the aggregation task\<close>

text \<open>
  Claim C1. The claim asks for a body that does not parse to be skipped and for
  the task to go on with the next responses. On the two bodies \<^verbatim>\<open><html>\<close> and
  \<^verbatim>\<open>{"accepted":1}\<close> the task leaves the statistics unchanged at the first one,
  but it returns there: it makes no \<^verbatim>\<open>wg.Done()\<close> call for it and never
  receives the second body, whose accepted count is not added.
\<close>

theorem C1_parse_failure_ends_aggregation:
  \<open>aggregation_task
     (\<lambda>b. if b = ''{"accepted":1}'' then Some [(''accepted'', JNumber (1 :: int))] else None)
     \<lparr>Accepted = 0, TopErrors = []\<rparr> 0
     [''<html>'', ''{"accepted":1}''] =
   \<lparr>final_stats = \<lparr>Accepted = 0, TopErrors = []\<rparr>, done_calls = 0, returned = True,
    unreceived = [''{"accepted":1}'']\<rparr>\<close>
  by (simp add: aggregate_def)

lemma step_after_return:
  assumes "step unmarshal s s'" and "aggregator s = AggReturned"
  shows "aggregator s' = AggReturned \<and> stats s' = stats s"
  using assms by (induction rule: step.induct) (simp_all add: wg_Add_def)

lemma reach_after_return:
  assumes "reach unmarshal s0 s" and "aggregator s0 = AggReturned"
  shows "aggregator s = AggReturned \<and> stats s = stats s0"
  using assms by (induction rule: reach.induct) (auto dest: step_after_return)

lemma step_closed_after_wait:
  assumes "step unmarshal s s'" and "chan_closed s \<longrightarrow> closer s = CloseReturned"
  shows "chan_closed s' \<longrightarrow> closer s' = CloseReturned"
  using assms by (induction rule: step.induct) (simp_all add: wg_Add_def)

lemma close_only_after_wait:
  assumes "reach unmarshal (start calls) s" and "chan_closed s"
  shows "closer s = CloseReturned"
proof -
  have "chan_closed s \<longrightarrow> closer s = CloseReturned"
    using assms(1)
    by (induction rule: reach.induct) (simp add: start_def, rule step_closed_after_wait)
  with assms(2) show ?thesis by simp
qed

text \<open>
  Claim C2. The claim asks for the counter to be incremented before the body is
  queued. \<open>RoundTrip\<close> sends the body first and calls \<^verbatim>\<open>wg.Add(1)\<close> after the
  send has completed; the aggregation task, which holds the body from then
  on, can finish with it and call \<^verbatim>\<open>wg.Done()\<close> before that: the counter
  becomes \<open>-1\<close> and the wait group panics.
\<close>

theorem C2_done_may_precede_add:
  "ops (RoundTrip ''/intake/v2/events'' (Response (BodyStream ''{}'' None))) = [ChanSend ''{}'', WgAdd 1]
   \<and> reach (\<lambda>b. if b = ''{}'' then Some [] else None)
        (start [[ChanSend ''{}'', WgAdd 1]])
        \<lparr>senders = [[WgAdd 1]], aggregator = Receiving, closer = NotCalled, chan_closed = False,
         counter = - 1, stats = \<lparr>Accepted = 0 :: int, TopErrors = []\<rparr>,
         crashed = Some NegativeWaitGroupCounter\<rparr>"
proof -
  let ?u = "\<lambda>b. if b = ''{}'' then Some ([] :: int document) else None"
  let ?s0 = "start [[ChanSend ''{}'', WgAdd 1]] :: int system"
  let ?s1 = "\<lparr>senders = [[WgAdd 1]], aggregator = Holding ''{}'', closer = NotCalled,
              chan_closed = False, counter = 0, stats = \<lparr>Accepted = 0 :: int, TopErrors = []\<rparr>,
              crashed = None\<rparr>"
  let ?s2 = "\<lparr>senders = [[WgAdd 1]], aggregator = Receiving, closer = NotCalled, chan_closed = False,
              counter = - 1, stats = \<lparr>Accepted = 0 :: int, TopErrors = []\<rparr>,
              crashed = Some NegativeWaitGroupCounter\<rparr>"
  have order: "ops (RoundTrip ''/intake/v2/events'' (Response (BodyStream ''{}'' None))) =
               [ChanSend ''{}'', WgAdd 1]"
    by (simp add: RoundTrip_def intake_path_def)
  have "step ?u ?s0 ?s1"
    using step.send [of ?s0 0 "''{}''" "[WgAdd 1]" ?u] by (simp add: start_def)
  then have r1: "reach ?u ?s0 ?s1"
    by (rule reach_step [OF reach_init])
  have "step ?u ?s1 ?s2"
    using step.aggregate_done [of ?s1 "''{}''" ?u "\<lparr>Accepted = 0, TopErrors = []\<rparr>"]
    by (simp add: aggregate_def AsFloat64_def AsSlice_def wg_Add_def)
  with r1 have "reach ?u ?s0 ?s2"
    by (rule reach_step)
  with order show ?thesis by simp
qed

text \<open>
  Claim C3. The claim asks that no response harvested before \<^verbatim>\<open>Close\<close> is called
  be dropped or written to a closed channel. Two \<^verbatim>\<open>RoundTrip\<close> calls have read
  their bodies. The first one sends, increments the counter, and its body is
  aggregated; meanwhile the second one waits in its send, and its
  \<^verbatim>\<open>wg.Add(1)\<close> is still to come. \<^verbatim>\<open>Close\<close> is called while the task is busy with
  the first body; when the task calls \<^verbatim>\<open>wg.Done()\<close> the counter is back at zero,
  \<^verbatim>\<open>Wait\<close> returns and the channel is closed: the second call's send meets a
  closed channel and its body never reaches the statistics. (The order inside
  \<^verbatim>\<open>Close\<close> itself is the claimed one: \<open>close_only_after_wait\<close>.)
\<close>

theorem C3_close_overtakes_harvested_response:
  "reach (\<lambda>b. if b = ''{}'' then Some [] else None)
        (start [[ChanSend ''{}'', WgAdd 1], [ChanSend ''{}'', WgAdd 1]])
        \<lparr>senders = [[], [ChanSend ''{}'', WgAdd 1]], aggregator = Receiving, closer = CloseReturned,
         chan_closed = True, counter = 0, stats = \<lparr>Accepted = 0 :: int, TopErrors = []\<rparr>,
         crashed = Some SendOnClosedChannel\<rparr>"
proof -
  let ?u = "\<lambda>b. if b = ''{}'' then Some ([] :: int document) else None"
  let ?second = "[ChanSend ''{}'', WgAdd 1]"
  let ?s0 = "start [[ChanSend ''{}'', WgAdd 1], ?second] :: int system"
  let ?st = "\<lparr>Accepted = 0 :: int, TopErrors = []\<rparr>"
  let ?s1 = "\<lparr>senders = [[WgAdd 1], ?second], aggregator = Holding ''{}'', closer = NotCalled,
              chan_closed = False, counter = 0, stats = ?st, crashed = None\<rparr>"
  let ?s2 = "\<lparr>senders = [[], ?second], aggregator = Holding ''{}'', closer = NotCalled,
              chan_closed = False, counter = 1, stats = ?st, crashed = None\<rparr>"
  let ?s3 = "\<lparr>senders = [[], ?second], aggregator = Holding ''{}'', closer = Waiting,
              chan_closed = False, counter = 1, stats = ?st, crashed = None\<rparr>"
  let ?s4 = "\<lparr>senders = [[], ?second], aggregator = Receiving, closer = Waiting,
              chan_closed = False, counter = 0, stats = ?st, crashed = None\<rparr>"
  let ?s5 = "\<lparr>senders = [[], ?second], aggregator = Receiving, closer = Closing,
              chan_closed = False, counter = 0, stats = ?st, crashed = None\<rparr>"
  let ?s6 = "\<lparr>senders = [[], ?second], aggregator = Receiving, closer = CloseReturned,
              chan_closed = True, counter = 0, stats = ?st, crashed = None\<rparr>"
  let ?s7 = "\<lparr>senders = [[], ?second], aggregator = Receiving, closer = CloseReturned,
              chan_closed = True, counter = 0, stats = ?st, crashed = Some SendOnClosedChannel\<rparr>"
  have "step ?u ?s0 ?s1"
    using step.send [of ?s0 0 "''{}''" "[WgAdd 1]" ?u] by (simp add: start_def)
  then have r1: "reach ?u ?s0 ?s1"
    by (rule reach_step [OF reach_init])
  have "step ?u ?s1 ?s2"
    using step.add [of ?s1 0 1 "[]" ?u] by (simp add: wg_Add_def)
  with r1 have r2: "reach ?u ?s0 ?s2"
    by (rule reach_step)
  have "step ?u ?s2 ?s3"
    using step.close_called [of ?s2 ?u] by simp
  with r2 have r3: "reach ?u ?s0 ?s3"
    by (rule reach_step)
  have "step ?u ?s3 ?s4"
    using step.aggregate_done [of ?s3 "''{}''" ?u ?st]
    by (simp add: aggregate_def AsFloat64_def AsSlice_def wg_Add_def)
  with r3 have r4: "reach ?u ?s0 ?s4"
    by (rule reach_step)
  have "step ?u ?s4 ?s5"
    using step.wait_returns [of ?s4 ?u] by simp
  with r4 have r5: "reach ?u ?s0 ?s5"
    by (rule reach_step)
  have "step ?u ?s5 ?s6"
    using step.close_channel [of ?s5 ?u] by simp
  with r5 have r6: "reach ?u ?s0 ?s6"
    by (rule reach_step)
  have "step ?u ?s6 ?s7"
    using step.send_closed [of ?s6 1 "''{}''" "[WgAdd 1]" ?u] by simp
  with r6 show ?thesis
    by (rule reach_step)
qed

end
